theory Spec2Isabelle
  imports Complex_Main
begin

section \<open>Campaign optimization engine (optimizer.py)\<close>

text \<open>
  The engine computes on Python floats. They are modelled as exact real numbers: every
  threshold comparison, product and quotient of the source is the same expression over
  \<^typ>\<open>real\<close>. A division whose divisor is zero raises \<open>ZeroDivisionError\<close> in Python
  (the row values handed to the per-row functions are plain Python floats), so division is
  a fallible operation of the model.
\<close>

subsection \<open>Python primitives used by the engine\<close>

datatype py_exn = ZeroDivisionError

definition fdiv :: "real \<Rightarrow> real \<Rightarrow> py_exn + real" where
  "fdiv a b = (if b = 0 then Inl ZeroDivisionError else Inr (a / b))"

text \<open>
  Python's built-in \<open>round(x, 2)\<close> rounds to the nearest multiple of 0.01 and sends an
  exact tie to the even neighbour.
\<close>

definition round_half_even :: "real \<Rightarrow> int" where
  "round_half_even y =
     (let f = \<lfloor>y\<rfloor>; d = y - of_int f
      in if d < 1 / 2 then f
         else if 1 / 2 < d then f + 1
         else if even f then f else f + 1)"

definition py_round2 :: "real \<Rightarrow> real" where
  "py_round2 x = of_int (round_half_even (x * 100)) / 100"

text \<open>\<open>int(x)\<close> truncates towards zero.\<close>

definition py_int :: "real \<Rightarrow> int" where
  "py_int x = (if 0 \<le> x then \<lfloor>x\<rfloor> else \<lceil>x\<rceil>)"

definition digit :: "nat \<Rightarrow> char" where
  "digit n = ''0123456789'' ! (n mod 10)"

fun str_nat :: "nat \<Rightarrow> string" where
  "str_nat n = (if n < 10 then [digit n] else str_nat (n div 10) @ [digit n])"

declare str_nat.simps [simp del]

definition str_int :: "int \<Rightarrow> string" where
  "str_int i = (if i < 0 then ''-'' @ str_nat (nat (- i)) else str_nat (nat i))"

text \<open>The format specification \<open>.2f\<close>: sign, integer part, a point and two decimals.\<close>

definition format_2f :: "real \<Rightarrow> string" where
  "format_2f x =
     (let c = round_half_even (x * 100); a = nat \<bar>c\<bar>
      in (if c < 0 then ''-'' else []) @ str_nat (a div 100) @ ''.''
           @ [digit (a div 10), digit a])"

text \<open>\<open>str.lower()\<close> on the ASCII letters.\<close>

definition lower_char :: "char \<Rightarrow> char" where
  "lower_char c =
     (let n = (of_char c :: nat)
      in if 65 \<le> n \<and> n \<le> 90 then char_of (n + 32) else c)"

definition lower :: "string \<Rightarrow> string" where
  "lower s = map lower_char s"

subsection \<open>Step 2: segmentation\<close>

datatype segment = Green | Yellow | Orange | Red

datatype progression = Good | Poor | Flat

definition weighted_score :: "real \<Rightarrow> real \<Rightarrow> real \<Rightarrow> real \<Rightarrow> real" where
  "weighted_score roi_d7 roi_d2nd w_d7 w_d2nd = w_d7 * roi_d7 + w_d2nd * roi_d2nd"

definition kpi_target :: "real \<Rightarrow> real \<Rightarrow> real \<Rightarrow> real \<Rightarrow> real" where
  "kpi_target kpi_d7 kpi_d2nd w_d7 w_d2nd = w_d7 * kpi_d7 + w_d2nd * kpi_d2nd"

text \<open>
  \<open>segment_row\<close> calls both helpers without weights, so the defaults
  \<open>w_d7 = 0.80\<close> and \<open>w_d2nd = 0.20\<close> apply.
\<close>

definition segment_row :: "real \<Rightarrow> real \<Rightarrow> real \<Rightarrow> real \<Rightarrow> py_exn + segment" where
  "segment_row roi_d7 roi_d2nd kpi_d7 kpi_d2nd =
     (let score = weighted_score roi_d7 roi_d2nd (80 / 100) (20 / 100);
          target = kpi_target kpi_d7 kpi_d2nd (80 / 100) (20 / 100)
      in if score \<ge> target then Inr Green
         else if roi_d7 = 0 \<and> roi_d2nd = 0 then Inr Red
         else (case fdiv (target - score) target of
                 Inl e \<Rightarrow> Inl e
               | Inr pct_below \<Rightarrow>
                   if pct_below \<le> 50 / 100 then Inr Yellow
                   else if pct_below < 1 then Inr Orange
                   else Inr Red))"

definition segment_single :: "real \<Rightarrow> real \<Rightarrow> py_exn + segment" where
  "segment_single val kpi =
     (if val \<ge> kpi then Inr Green
      else if val = 0 then Inr Red
      else (case fdiv (kpi - val) kpi of
              Inl e \<Rightarrow> Inl e
            | Inr pct_below \<Rightarrow>
                if pct_below \<le> 50 / 100 then Inr Yellow
                else if pct_below < 1 then Inr Orange
                else Inr Red))"

definition get_progression :: "real \<Rightarrow> real \<Rightarrow> progression" where
  "get_progression roi_d7 roi_d2nd =
     (if roi_d7 = 0 then Flat
      else if roi_d2nd > roi_d7 then Good
      else if roi_d2nd < roi_d7 then Poor
      else Flat)"

subsection \<open>Rows\<close>

text \<open>
  A row of the merged table after the null filter. The two KPI columns, whose names are
  computed at run time (\<open>d7_col\<close>, \<open>d2nd_col\<close>), are the fields \<open>roi_d7\<close> and
  \<open>roi_d2nd\<close>. A nullable column is an \<open>option\<close>: \<open>None\<close> is the cell that
  \<open>pd.notna\<close> rejects.
\<close>

record row =
  status :: string
  spend :: real
  preloads :: real
  fillRate :: "real option"
  installs :: "real option"
  effectiveBidFloor :: "real option"
  bidRate :: real
  highTier :: "real option"
  roi_d7 :: real
  roi_d2nd :: real

text \<open>
  The columns that \<open>add_segments\<close> and \<open>run_optimization\<close> add before the discard
  step. \<open>x_roi_d7\<close> is the column \<open>_roi_d7\<close>, read with \<open>row.get('_roi_d7', 0)\<close>:
  \<open>None\<close> is the absent key.
\<close>

record seg_row = row +
  segment :: segment
  progression :: progression
  x_roi_d7 :: "real option"

record full_row = seg_row +
  discard :: bool

definition add_segments :: "real \<Rightarrow> real \<Rightarrow> row \<Rightarrow> py_exn + seg_row" where
  "add_segments kpi_d7 kpi_d2nd r =
     (case segment_row (roi_d7 r) (roi_d2nd r) kpi_d7 kpi_d2nd of
        Inl e \<Rightarrow> Inl e
      | Inr seg \<Rightarrow>
          Inr (row.extend r
                 (seg_row.fields seg (get_progression (roi_d7 r) (roi_d2nd r)) None)))"

subsection \<open>Step 3: discard logic\<close>

definition should_discard :: "'a seg_row_scheme \<Rightarrow> bool" where
  "should_discard r =
     (let is_green = (segment r = Green);
          installs' = (case installs r of Some v \<Rightarrow> v | None \<Rightarrow> 0);
          spend' = spend r;
          preloads' = preloads r;
          progression' = progression r;
          fill_rate = (case fillRate r of Some v \<Rightarrow> v | None \<Rightarrow> 0);
          d7 = (case x_roi_d7 r of Some v \<Rightarrow> v | None \<Rightarrow> 0)
      in if is_green \<and> installs' \<ge> 5 then False
         else if progression' = Good \<and> fill_rate < 60 / 100 \<and> d7 > 0 \<and> spend' \<ge> 100
           then False
         else if spend' < 100 then True
         else if preloads' < 100 then True
         else if lower (status r) = ''paused'' \<and> \<not> is_green then True
         else False)"

subsection \<open>Step 4: daily cap logic\<close>

definition get_daily_cap_suggestion :: "'a row_scheme \<Rightarrow> string option" where
  "get_daily_cap_suggestion r =
     (if spend r \<le> 1000 then None
      else
        (let floor' = effectiveBidFloor r;
             bid = bidRate r;
             at_floor = (case floor' of None \<Rightarrow> False | Some f \<Rightarrow> bid \<le> f);
             has_perf = (roi_d7 r > 0 \<or> roi_d2nd r > 0);
             no_perf = (roi_d7 r = 0 \<and> roi_d2nd r = 0)
         in if no_perf then Some ''Suggest pause''
            else if at_floor \<and> has_perf then
              (let daily = py_round2 ((spend r / 30) * (50 / 100))
               in Some (''Add daily cap $'' @ format_2f daily))
            else None))"

subsection \<open>Step 5: bid optimization\<close>

text \<open>
  The two nested helpers of \<open>optimize_bid\<close>; the variables they capture (\<open>floor\<close>,
  \<open>high_tier\<close>, \<open>bid\<close>, \<open>fill_rate\<close>) are their leading parameters.
\<close>

definition apply_floor :: "real option \<Rightarrow> real \<Rightarrow> real \<times> string option" where
  "apply_floor floor' new_bid =
     (case floor' of
        Some f \<Rightarrow>
          if new_bid < f then (py_round2 f, Some ''Meet bid floor'')
          else (py_round2 new_bid, None)
      | None \<Rightarrow> (py_round2 new_bid, None))"

definition increase_label :: "real \<Rightarrow> string" where
  "increase_label pct = ''Increase bid '' @ str_int (py_int (pct * 100)) @ ''%''"

definition decrease_label :: "real \<Rightarrow> string" where
  "decrease_label pct = ''Decrease bid '' @ str_int (py_int (pct * 100)) @ ''%''"

definition apply_high_tier ::
  "real option \<Rightarrow> real \<Rightarrow> real \<Rightarrow> real \<Rightarrow> real \<Rightarrow> real \<times> string" where
  "apply_high_tier high_tier bid fill_rate new_bid pct =
     (case high_tier of
        None \<Rightarrow> (py_round2 new_bid, increase_label pct)
      | Some h \<Rightarrow>
          if bid > h \<and> fill_rate < 70 / 100 then (py_round2 (bid * (115 / 100)), ''Increase bid 15%'')
          else (py_round2 (min new_bid h), increase_label pct))"

text \<open>
  The guarded quotients \<open>pct_above\<close> and \<open>pct_below\<close> of \<open>optimize_bid\<close>
  (\<open>... / target if target > 0 else ...\<close>).
\<close>

definition pct_above_of :: "real \<Rightarrow> real \<Rightarrow> py_exn + real" where
  "pct_above_of score target = (if target > 0 then fdiv (score - target) target else Inr 0)"

definition pct_below_of :: "real \<Rightarrow> real \<Rightarrow> py_exn + real" where
  "pct_below_of score target = (if target > 0 then fdiv (target - score) target else Inr 1)"

text \<open>
  Every branch that changes the bid ends with the same three lines,
  \<open>floored, floor_action = apply_floor(new_bid)\<close>, \<open>if floor_action: return floor_action,
  floored\<close>, \<open>return action, new_bid\<close>; \<open>floor_return\<close> is that ending.
\<close>

definition floor_return ::
  "real option \<Rightarrow> string \<Rightarrow> real \<Rightarrow> py_exn + (string option \<times> real option)" where
  "floor_return floor' action new_bid =
     (case apply_floor floor' new_bid of
        (floored, floor_action) \<Rightarrow>
          if floor_action \<noteq> None then Inr (floor_action, Some floored)
          else Inr (Some action, Some new_bid))"

definition optimize_bid ::
  "full_row \<Rightarrow> real \<Rightarrow> real \<Rightarrow> py_exn + (string option \<times> real option)" where
  "optimize_bid r kpi_d7 kpi_d2nd =
     (let floor' = effectiveBidFloor r;
          bid = bidRate r;
          high_tier = highTier r;
          fill_rate = (case fillRate r of Some v \<Rightarrow> v | None \<Rightarrow> 0);
          installs' = (case installs r of Some v \<Rightarrow> v | None \<Rightarrow> 0);
          seg = segment r;
          prog = progression r;
          d7 = roi_d7 r;
          d2nd = roi_d2nd r;
          spend' = spend r;
          at_floor = (case floor' of None \<Rightarrow> False | Some f \<Rightarrow> bid \<le> f);
          score = weighted_score d7 d2nd (80 / 100) (20 / 100);
          target = kpi_target kpi_d7 kpi_d2nd (80 / 100) (20 / 100)
      in case pct_above_of score target of
           Inl e \<Rightarrow> Inl e
         | Inr pct_above \<Rightarrow>
        (case pct_below_of score target of
           Inl e \<Rightarrow> Inl e
         | Inr pct_below \<Rightarrow>
        (if discard r then Inr (None, None)
         else if at_floor then Inr (None, None)
         else if prog = Good \<and> fill_rate < 60 / 100 \<and> d7 > 0 then
           (case (if d7 > 0 then fdiv d2nd d7 else Inr 1) of
              Inl e \<Rightarrow> Inl e
            | Inr ratio \<Rightarrow>
                (let increase_pct = (if ratio \<ge> 2 then 15 / 100 else 10 / 100);
                     new_bid = py_round2 (bid * (1 + increase_pct))
                 in (case apply_high_tier high_tier bid fill_rate new_bid increase_pct of
                       (new_bid, action) \<Rightarrow> floor_return floor' action new_bid)))
         else if prog = Poor then
           (if spend' < 100 then Inr (None, None)
            else (case segment_single d2nd kpi_d2nd of
                    Inl e \<Rightarrow> Inl e
                  | Inr seg_d2nd \<Rightarrow>
                      if seg_d2nd = Yellow \<or> seg_d2nd = Orange \<or> seg_d2nd = Red then
                        (let new_bid = py_round2 (bid * (90 / 100))
                         in floor_return floor' ''Decrease bid 10%'' new_bid)
                      else Inr (None, None)))
         else if seg = Green then
           (if installs' < 5 then Inr (None, None)
            else if fill_rate > 80 / 100 then
              (let new_bid = py_round2 (bid * (115 / 100));
                   new_bid = (case high_tier of
                                Some h \<Rightarrow> py_round2 (min new_bid h)
                              | None \<Rightarrow> new_bid)
               in floor_return floor' ''Increase bid 15%'' new_bid)
            else
              (let increase_pct =
                     (if fill_rate > 60 / 100 then 15 / 100
                      else if pct_above \<le> 25 / 100 then 10 / 100
                      else if pct_above \<le> 50 / 100 then 20 / 100
                      else 30 / 100);
                   new_bid = py_round2 (bid * (1 + increase_pct))
               in (case apply_high_tier high_tier bid fill_rate new_bid increase_pct of
                     (new_bid, action) \<Rightarrow> floor_return floor' action new_bid)))
         else if seg = Yellow then
           (let decrease_pct = (if pct_below \<le> 25 / 100 then 10 / 100 else 15 / 100);
                new_bid = py_round2 (bid * (1 - decrease_pct))
            in floor_return floor' (decrease_label decrease_pct) new_bid)
         else if seg = Orange then
           (let decrease_pct = (if pct_below \<le> 75 / 100 then 20 / 100 else 25 / 100);
                new_bid = py_round2 (bid * (1 - decrease_pct))
            in floor_return floor' (decrease_label decrease_pct) new_bid)
         else
           (let new_bid = py_round2 (bid * (70 / 100))
            in floor_return floor' ''Decrease bid 30%'' new_bid))))"

subsection \<open>Main pipeline\<close>

text \<open>
  The per-row part of \<open>run_optimization\<close>, from segmentation to bid optimization, on the
  merged and null-filtered table \<open>internal\<close> (file loading, the merge and the spreadsheet
  writer are outside the model). Each \<open>DataFrame.apply\<close> visits every row; an exception
  in any row leaves the run. The parameters are those of the source: it takes the two KPI
  targets and no weights. The model is about a table with at least one row: pandas
  answers \<open>apply\<close> on an empty frame by another path.
\<close>

fun apply_rows :: "('a \<Rightarrow> py_exn + 'b) \<Rightarrow> 'a list \<Rightarrow> py_exn + 'b list" where
  "apply_rows f [] = Inr []"
| "apply_rows f (x # xs) =
     (case f x of
        Inl e \<Rightarrow> Inl e
      | Inr y \<Rightarrow> (case apply_rows f xs of Inl e \<Rightarrow> Inl e | Inr ys \<Rightarrow> Inr (y # ys)))"

record out_row =
  out_source :: full_row
  out_action :: "string option"
  out_recommended_bid :: "real option"
  out_daily_cap :: "string option"

definition run_optimization :: "row list \<Rightarrow> real \<Rightarrow> real \<Rightarrow> py_exn + out_row list" where
  "run_optimization internal kpi_d7 kpi_d2nd =
     (case apply_rows (add_segments kpi_d7 kpi_d2nd) internal of
        Inl e \<Rightarrow> Inl e
      | Inr segmented \<Rightarrow>
          (let with_ref = map (\<lambda>r. r\<lparr>x_roi_d7 := Some (roi_d7 r)\<rparr>) segmented;
               discarded = map (\<lambda>r. seg_row.extend r (full_row.fields (should_discard r)))
                               with_ref;
               caps = map get_daily_cap_suggestion discarded
           in case apply_rows (\<lambda>r. optimize_bid r kpi_d7 kpi_d2nd) discarded of
                Inl e \<Rightarrow> Inl e
              | Inr results \<Rightarrow>
                  Inr (map (\<lambda>(r, cap, action, rec_bid).
                              \<lparr>out_source = r, out_action = action,
                               out_recommended_bid = rec_bid, out_daily_cap = cap\<rparr>)
                           (zip discarded (zip caps results)))))"

section \<open>The specification's formulations\<close>

text \<open>
  The discard policy as the specification words it: an ordered list of guarded rules, the
  first rule whose guard is true decides, and the record is kept when none is.
\<close>

fun first_true :: "(bool \<times> 'a) list \<Rightarrow> 'a \<Rightarrow> 'a" where
  "first_true [] d = d"
| "first_true ((guard, v) # rules) d = (if guard then v else first_true rules d)"

definition spec_discard_policy ::
  "segment \<Rightarrow> real \<Rightarrow> progression \<Rightarrow> real \<Rightarrow> real \<Rightarrow> real \<Rightarrow> real \<Rightarrow> string \<Rightarrow> bool" where
  "spec_discard_policy seg installs' prog fill primaryKPI spend' preloads' status' =
     first_true
       [(seg = Green \<and> installs' \<ge> 5, False),
        (prog = Good \<and> fill < 60 / 100 \<and> primaryKPI > 0 \<and> spend' \<ge> 100, False),
        (spend' < 100, True),
        (preloads' < 100, True),
        (lower status' = ''paused'' \<and> seg \<noteq> Green, True)]
       False"

text \<open>Rounding to two decimals with a tie going up (half-up), as the specification words it.\<close>

definition spec_round_half_up2 :: "real \<Rightarrow> real" where
  "spec_round_half_up2 x = of_int \<lfloor>x * 100 + 1 / 2\<rfloor> / 100"

section \<open>The possible results of the bid optimizer\<close>

text \<open>
  A result of \<open>optimize_bid\<close> is well-formed when it is the exception of the one unguarded
  division (in \<open>segment_single\<close>, reached with a negative secondary KPI and a zero
  secondary target), or the pair \<open>None, None\<close>, or what the floor clamp returns for a
  label and an already rounded bid.
\<close>

definition bid_result_ok ::
  "real option \<Rightarrow> real \<Rightarrow> real \<Rightarrow> py_exn + (string option \<times> real option) \<Rightarrow> bool" where
  "bid_result_ok fl d2nd k2 x =
     ((x = Inl ZeroDivisionError \<and> d2nd < 0 \<and> k2 = 0)
      \<or> x = Inr (None, None)
      \<or> (\<exists>a nb. x = floor_return fl a nb \<and> py_round2 nb = nb))"

section \<open>Properties\<close>

subsection \<open>Segmentation\<close>

lemma fdiv_nonzero: "b \<noteq> 0 \<Longrightarrow> fdiv a b = Inr (a / b)"
  by (simp add: fdiv_def)

text \<open>
  C10. The classifiers divide by the target without a guard, yet on non-negative KPI
  inputs and any targets neither \<open>segment_row\<close> nor \<open>segment_single\<close> raises
  \<open>ZeroDivisionError\<close>: when the (weighted) target is not positive, the comparison
  score \<open>\<ge>\<close> target returns green before the division is reached.
\<close>

theorem segment_never_divides_by_zero:
  assumes "0 \<le> p" and "0 \<le> s" and "0 \<le> v"
  shows "segment_row p s tp ts \<noteq> Inl ZeroDivisionError
         \<and> segment_single v k \<noteq> Inl ZeroDivisionError
         \<and> (kpi_target tp ts (80 / 100) (20 / 100) \<le> 0 \<longrightarrow> segment_row p s tp ts = Inr Green)
         \<and> (k \<le> 0 \<longrightarrow> segment_single v k = Inr Green)"
proof -
  have score: "0 \<le> weighted_score p s (80 / 100) (20 / 100)"
    using assms(1,2) by (simp add: weighted_score_def)
  have row: "segment_row p s tp ts \<noteq> Inl ZeroDivisionError"
  proof (cases "kpi_target tp ts (80 / 100) (20 / 100) = 0")
    case True
    with score show ?thesis by (simp add: segment_row_def Let_def)
  next
    case False
    then show ?thesis by (simp add: segment_row_def Let_def fdiv_nonzero)
  qed
  have single: "segment_single v k \<noteq> Inl ZeroDivisionError"
  proof (cases "k = 0")
    case True
    with assms(3) show ?thesis by (simp add: segment_single_def)
  next
    case False
    then show ?thesis by (simp add: segment_single_def fdiv_nonzero)
  qed
  have row_green:
    "kpi_target tp ts (80 / 100) (20 / 100) \<le> 0 \<Longrightarrow> segment_row p s tp ts = Inr Green"
    using score by (simp add: segment_row_def Let_def)
  have single_green: "k \<le> 0 \<Longrightarrow> segment_single v k = Inr Green"
    using assms(3) by (simp add: segment_single_def)
  from row single row_green single_green show ?thesis by simp
qed

theorem segment_never_divides_by_zero_witness:
  "(0::real) \<le> 3 / 100 \<and> (0::real) \<le> 0 \<and> (0::real) \<le> 4 / 100
   \<and> kpi_target 0 0 (80 / 100) (20 / 100) \<le> 0 \<and> (0::real) \<le> 0
   \<and> segment_row (3 / 100) 0 0 0 = Inr Green
   \<and> segment_single (4 / 100) 0 = Inr Green
   \<and> segment_row (3 / 100) 0 (10 / 100) (10 / 100) \<noteq> Inl ZeroDivisionError"
  using segment_never_divides_by_zero [of "3 / 100" 0 "4 / 100" 0 0 0]
    segment_never_divides_by_zero [of "3 / 100" 0 "4 / 100" "10 / 100" "10 / 100" 0]
  by (simp add: kpi_target_def)

subsection \<open>Discard policy\<close>

lemma lower_active: "lower ''active'' = ''active''"
  by code_simp

lemma lower_PAUSED: "lower ''PAUSED'' = ''paused''"
  by code_simp

text \<open>
  C4. The discard decision evaluates the six rules of the specification in order, the
  first true rule deciding, with a null \<open>installs\<close> or \<open>fillRate\<close> read as 0: (1) green
  and installs \<open>\<ge>\<close> 5, kept; (2) good progression, fillRate < 0.60, primaryKPI > 0 and
  spend \<open>\<ge>\<close> 100, kept; (3) spend < 100, discarded; (4) preloads < 100, discarded;
  (5) status equal to \<open>paused\<close> up to case and segment not green, discarded; (6) kept.
  The primary KPI is the value \<open>should_discard\<close> reads from the column \<open>_roi_d7\<close>, which
  the run fills with the primary KPI column. A record with spend = 50, preloads = 200,
  status \<open>active\<close> and installs = 0 is discarded whatever its segment.
\<close>

theorem should_discard_rules:
  "should_discard r =
     spec_discard_policy (segment r) (case installs r of Some v \<Rightarrow> v | None \<Rightarrow> 0)
       (progression r) (case fillRate r of Some v \<Rightarrow> v | None \<Rightarrow> 0)
       (case x_roi_d7 r of Some v \<Rightarrow> v | None \<Rightarrow> 0) (spend r) (preloads r) (status r)
   \<and> (spend r = 50 \<and> preloads r = 200 \<and> status r = ''active'' \<and> installs r = Some 0
        \<longrightarrow> should_discard r)"
  by (simp add: should_discard_def spec_discard_policy_def Let_def lower_active)

theorem should_discard_rules_witness:
  "should_discard \<lparr>status = ''active'', spend = 50, preloads = 200, fillRate = Some (5 / 10),
      installs = Some 0, effectiveBidFloor = None, bidRate = 1, highTier = None,
      roi_d7 = 12 / 100, roi_d2nd = 20 / 100, segment = Green, progression = Good,
      x_roi_d7 = Some (12 / 100)\<rparr>"
  using should_discard_rules [of "\<lparr>status = ''active'', spend = 50, preloads = 200, fillRate = Some (5 / 10),
      installs = Some 0, effectiveBidFloor = None, bidRate = 1, highTier = None,
      roi_d7 = 12 / 100, roi_d2nd = 20 / 100, segment = Green, progression = Good,
      x_roi_d7 = Some (12 / 100)\<rparr>", THEN conjunct2]
  by simp

lemma should_discard_paused:
  "should_discard \<lparr>status = ''PAUSED'', spend = 500, preloads = 200, fillRate = Some (5 / 10),
      installs = Some 0, effectiveBidFloor = None, bidRate = 1, highTier = None,
      roi_d7 = 12 / 100, roi_d2nd = 2 / 100, segment = Yellow, progression = Poor,
      x_roi_d7 = Some (12 / 100)\<rparr>"
  by (simp add: should_discard_def lower_PAUSED)

subsection \<open>Rounding and formatting\<close>

lemma round_half_even_of_int: "round_half_even (of_int k) = k"
  by (simp add: round_half_even_def)

lemma py_round2_cents: "py_round2 x * 100 = of_int (round_half_even (x * 100))"
  by (simp add: py_round2_def)

lemma py_round2_idem: "py_round2 (py_round2 x) = py_round2 x"
  by (simp add: py_round2_def round_half_even_of_int)

lemma format_2f_rounded: "format_2f (py_round2 x) = format_2f x"
  by (simp add: format_2f_def py_round2_def round_half_even_of_int)

subsection \<open>Daily-cap advisor\<close>

subsection \<open>Bid optimizer: the shape of every result\<close>

lemma pct_above_of_total: "pct_above_of s t = Inr (if t > 0 then (s - t) / t else 0)"
  by (simp add: pct_above_of_def fdiv_def)

lemma pct_below_of_total: "pct_below_of s t = Inr (if t > 0 then (t - s) / t else 1)"
  by (simp add: pct_below_of_def fdiv_def)

lemma apply_high_tier_rounded:
  "py_round2 (fst (apply_high_tier h bid fr nb pct)) = fst (apply_high_tier h bid fr nb pct)"
  by (cases h) (simp_all add: apply_high_tier_def py_round2_idem)

lemma tier_cap_rounded:
  "py_round2 (case h of Some t \<Rightarrow> py_round2 (min x t) | None \<Rightarrow> py_round2 y)
     = (case h of Some t \<Rightarrow> py_round2 (min x t) | None \<Rightarrow> py_round2 y)"
  by (cases h) (simp_all add: py_round2_idem)

lemma segment_single_raises:
  "segment_single v k = Inl e \<Longrightarrow> e = ZeroDivisionError \<and> v < 0 \<and> k = 0"
  by (cases e) (auto simp add: segment_single_def fdiv_def split: if_splits)

lemma ok_none: "bid_result_ok fl d2nd k2 (Inr (None, None))"
  by (simp add: bid_result_ok_def)

lemma ok_floor: "py_round2 nb = nb \<Longrightarrow> bid_result_ok fl d2nd k2 (floor_return fl a nb)"
  by (auto simp add: bid_result_ok_def)

lemma ok_poor:
  "bid_result_ok fl v k
     (case segment_single v k of Inl e \<Rightarrow> Inl e
      | Inr s \<Rightarrow> if s = Yellow \<or> s = Orange \<or> s = Red then floor_return fl a (py_round2 x)
                 else Inr (None, None))"
proof (cases "segment_single v k")
  case (Inl e)
  from segment_single_raises [OF Inl] Inl show ?thesis
    by (simp add: bid_result_ok_def)
next
  case (Inr s)
  then show ?thesis
    by (simp add: ok_none ok_floor py_round2_idem)
qed

lemma optimize_bid_ok:
  "bid_result_ok (effectiveBidFloor r) (roi_d2nd r) k2 (optimize_bid r k1 k2)"
  unfolding optimize_bid_def Let_def pct_above_of_total pct_below_of_total
  by (simp add: case_prod_beta fdiv_def ok_none ok_floor ok_poor py_round2_idem
        apply_high_tier_rounded tier_cap_rounded)

lemma floor_return_cases:
  "floor_return fl a nb =
     (case fl of
        Some f \<Rightarrow> if nb < f then Inr (Some ''Meet bid floor'', Some (py_round2 f))
                  else Inr (Some a, Some nb)
      | None \<Rightarrow> Inr (Some a, Some nb))"
  by (cases fl) (simp_all add: floor_return_def apply_floor_def)

lemma floor_return_pair: "\<exists>l b. floor_return fl a nb = Inr (Some l, Some b)"
  by (cases fl) (simp_all add: floor_return_cases)

lemma floor_return_rounded:
  "floor_return fl a nb = Inr (l, Some b) \<Longrightarrow> py_round2 nb = nb \<Longrightarrow> py_round2 b = b"
  by (cases fl) (auto simp add: floor_return_cases py_round2_idem split: if_splits)

lemma optimize_bid_rounded:
  assumes "optimize_bid r k1 k2 = Inr (l, Some b)"
  shows "py_round2 b = b"
proof -
  from optimize_bid_ok [of r k2 k1] assms
  obtain a nb where "floor_return (effectiveBidFloor r) a nb = Inr (l, Some b)"
    and "py_round2 nb = nb"
    by (auto simp add: bid_result_ok_def)
  then show ?thesis by (rule floor_return_rounded)
qed


text \<open>
  With a numeric bid rate, \<open>optimize_bid\<close> returns the label and the bid together or
  not at all, or raises the \<open>ZeroDivisionError\<close> of \<open>segment_single\<close>.
\<close>

lemma optimize_bid_label_and_bid_together:
  "(\<exists>l b. optimize_bid r kpi_d7 kpi_d2nd = Inr (Some l, Some b))
   \<or> optimize_bid r kpi_d7 kpi_d2nd = Inr (None, None)
   \<or> (optimize_bid r kpi_d7 kpi_d2nd = Inl ZeroDivisionError \<and> roi_d2nd r < 0 \<and> kpi_d2nd = 0)"
  using optimize_bid_ok [of r kpi_d2nd kpi_d7] floor_return_pair
  unfolding bid_result_ok_def by metis

subsection \<open>Concrete rows\<close>

lemmas bid_eval_defs = optimize_bid_def floor_return_def apply_floor_def apply_high_tier_def
  py_round2_def round_half_even_def pct_above_of_def pct_below_of_def fdiv_def
  weighted_score_def kpi_target_def

lemma tie_floor_row:
  "optimize_bid \<lparr>status = ''active'', spend = 500, preloads = 200, fillRate = Some (5 / 10),
      installs = Some 10, effectiveBidFloor = Some (125 / 1000), bidRate = 16 / 100,
      highTier = None, roi_d7 = 0, roi_d2nd = 0, segment = Red, progression = Flat,
      x_roi_d7 = Some 0, discard = False\<rparr> (10 / 100) (10 / 100)
   = Inr (Some ''Meet bid floor'', Some (12 / 100))"
  by (simp add: bid_eval_defs)

lemma tie_daily_cap:
  "get_daily_cap_suggestion \<lparr>status = ''active'', spend = 15075 / 10, preloads = 200,
      fillRate = Some (5 / 10), installs = Some 10, effectiveBidFloor = Some (50 / 100),
      bidRate = 50 / 100, highTier = None, roi_d7 = 2 / 100, roi_d2nd = 0\<rparr>
   = Some ''Add daily cap $25.12''"
  by code_simp

lemma half_up_values:
  "spec_round_half_up2 (125 / 1000) = 13 / 100
   \<and> format_2f (spec_round_half_up2 (15075 / 10 / 30 * (50 / 100))) = ''25.13''"
  by code_simp

lemma yellow_zero_target:
  "optimize_bid \<lparr>status = ''active'', spend = 500, preloads = 200, fillRate = Some (5 / 10),
      installs = Some 10, effectiveBidFloor = None, bidRate = 1,
      highTier = None, roi_d7 = - (2 / 100), roi_d2nd = - (2 / 100), segment = Yellow,
      progression = Flat, x_roi_d7 = Some (- (2 / 100)), discard = False\<rparr> 0 0
   = Inr (Some ''Decrease bid 15%'', Some (85 / 100))"
  by code_simp

subsection \<open>Floor clamp\<close>

lemma floor_return_clamp_label:
  "nb < f \<Longrightarrow> floor_return (Some f) a nb = Inr (Some ''Meet bid floor'', Some (py_round2 f))"
  by (simp add: floor_return_cases)

lemma floor_return_meets_cent_floor:
  "floor_return (Some f) a nb = Inr (l, Some b) \<Longrightarrow> py_round2 f = f \<Longrightarrow> f \<le> b"
  by (auto simp add: floor_return_cases split: if_splits)

lemma optimize_bid_meets_cent_floor:
  assumes "optimize_bid r k1 k2 = Inr (l, Some b)"
    and "effectiveBidFloor r = Some f" and "py_round2 f = f"
  shows "f \<le> b"
proof -
  from optimize_bid_ok [of r k2 k1] assms(1,2)
  obtain a nb where "floor_return (Some f) a nb = Inr (l, Some b)"
    by (auto simp add: bid_result_ok_def)
  then show ?thesis using assms(3) by (rule floor_return_meets_cent_floor)
qed

text \<open>
  C1. Claimed: whenever \<open>effectiveBidFloor\<close> is present and a bid is produced, the
  recommended bid is at least the floor, and a clamped bid carries the label
  \<open>Meet bid floor\<close>. The clamp returns \<open>round(floor, 2)\<close>, which lies below a floor that
  is not a whole number of cents and rounds down: a red row with bid 0.16 and floor 0.124
  is answered with \<open>Meet bid floor\<close> and the bid 0.12. (For a floor in whole cents the bid
  is at least the floor, \<open>optimize_bid_meets_cent_floor\<close>, and a clamped bid always
  carries the label, \<open>floor_return_clamp_label\<close>.)
\<close>

theorem floor_clamp_rounds_below_floor:
  "run_optimization
     [\<lparr>status = ''active'', spend = 500, preloads = 200, fillRate = Some (5 / 10),
        installs = Some 10, effectiveBidFloor = Some (124 / 1000), bidRate = 16 / 100,
        highTier = None, roi_d7 = 0, roi_d2nd = 0\<rparr>] (10 / 100) (10 / 100)
     = Inr [\<lparr>out_source =
               \<lparr>status = ''active'', spend = 500, preloads = 200, fillRate = Some (5 / 10),
                  installs = Some 10, effectiveBidFloor = Some (124 / 1000),
                  bidRate = 16 / 100, highTier = None, roi_d7 = 0, roi_d2nd = 0,
                  segment = Red, progression = Flat, x_roi_d7 = Some 0, discard = False\<rparr>,
             out_action = Some ''Meet bid floor'',
             out_recommended_bid = Some (12 / 100),
             out_daily_cap = None\<rparr>]
   \<and> optimize_bid
       \<lparr>status = ''active'', spend = 500, preloads = 200, fillRate = Some (5 / 10),
          installs = Some 10, effectiveBidFloor = Some (124 / 1000), bidRate = 16 / 100,
          highTier = None, roi_d7 = 0, roi_d2nd = 0, segment = Red, progression = Flat,
          x_roi_d7 = Some 0, discard = False\<rparr> (10 / 100) (10 / 100)
     = Inr (Some ''Meet bid floor'', Some (12 / 100))
   \<and> (12 / 100 :: real) < 124 / 1000"
  by code_simp

subsection \<open>Rounding of monetary outputs\<close>

lemma round_half_even_near:
  "\<bar>of_int (round_half_even y) - y\<bar> \<le> 1 / 2"
  unfolding round_half_even_def Let_def by (auto; linarith)

lemma round_half_even_tie:
  "\<bar>of_int (round_half_even y) - y\<bar> = 1 / 2 \<Longrightarrow> even (round_half_even y)"
  unfolding round_half_even_def Let_def
  by (auto split: if_splits; linarith)

lemma py_round2_near: "\<bar>py_round2 x - x\<bar> \<le> 1 / 200"
  using round_half_even_near [of "x * 100"] by (simp add: py_round2_def field_simps)

lemma py_round2_tie: "\<bar>py_round2 x - x\<bar> = 1 / 200 \<Longrightarrow> even (round_half_even (x * 100))"
proof -
  assume "\<bar>py_round2 x - x\<bar> = 1 / 200"
  then have "\<bar>of_int (round_half_even (x * 100)) - x * 100\<bar> = 1 / 2"
    by (simp add: py_round2_def field_simps)
  then show ?thesis by (rule round_half_even_tie)
qed

lemma apply_floor_bid:
  "fst (apply_floor fl nb)
     = py_round2 (case fl of Some f \<Rightarrow> if nb < f then f else nb | None \<Rightarrow> nb)"
  by (cases fl) (simp_all add: apply_floor_def)

lemma apply_high_tier_bid:
  "fst (apply_high_tier h bid fr nb pct)
     = py_round2 (case h of None \<Rightarrow> nb
                  | Some t \<Rightarrow> if bid > t \<and> fr < 70 / 100 then bid * (115 / 100) else min nb t)"
  by (cases h) (simp_all add: apply_high_tier_def)

lemma daily_cap_amount:
  "get_daily_cap_suggestion r = Some c \<Longrightarrow> c \<noteq> ''Suggest pause''
   \<Longrightarrow> c = ''Add daily cap $'' @ format_2f (py_round2 (spend r / 30 * (50 / 100)))"
  by (auto simp add: get_daily_cap_suggestion_def Let_def split: if_splits)

subsection \<open>Fallback for a target that is not positive\<close>




subsection \<open>KPI weights\<close>

text \<open>
  C2. Claimed: the run takes the weights from its caller and segments with them. The run
  has no weight parameter and \<open>segment_row\<close> always uses 0.80 and 0.20: the record with
  KPIs 0.05 and 0.20 against targets 0.10 and 0.10 is classified yellow and its bid is
  decreased, although with the weights 0.50 and 0.50 its weighted score reaches the
  weighted target (green).
\<close>

theorem fixed_weights_ignore_caller:
  "run_optimization
     [\<lparr>status = ''active'', spend = 500, preloads = 200, fillRate = Some (70 / 100),
        installs = Some 10, effectiveBidFloor = None, bidRate = 1, highTier = None,
        roi_d7 = 5 / 100, roi_d2nd = 20 / 100\<rparr>] (10 / 100) (10 / 100)
     = Inr [\<lparr>out_source =
               \<lparr>status = ''active'', spend = 500, preloads = 200, fillRate = Some (70 / 100),
                  installs = Some 10, effectiveBidFloor = None, bidRate = 1, highTier = None,
                  roi_d7 = 5 / 100, roi_d2nd = 20 / 100, segment = Yellow,
                  progression = Good, x_roi_d7 = Some (5 / 100), discard = False\<rparr>,
             out_action = Some ''Decrease bid 10%'',
             out_recommended_bid = Some (90 / 100),
             out_daily_cap = None\<rparr>]
   \<and> segment_row (5 / 100) (20 / 100) (10 / 100) (10 / 100) = Inr Yellow
   \<and> kpi_target (10 / 100) (10 / 100) (50 / 100) (50 / 100)
       \<le> weighted_score (5 / 100) (20 / 100) (50 / 100) (50 / 100)"
  by code_simp

subsection \<open>The run validates no configuration\<close>













end
